theory Spec2Isabelle
  imports Complex_Main "HOL-Library.Sublist" "HOL-Library.AList" "HOL-Library.Word"
begin

section \<open>JavaScript values used by the frontend\<close>

text \<open>
  The frontend exchanges JSON with the REST API.  A parsed JSON value is one of the
  constructors below; a number is a finite JavaScript number, modelled by the rational it
  denotes; an object is the list of its entries in property order, one entry per key.
  A property read that finds nothing yields \<open>undefined\<close>, modelled as \<open>None\<close>.
\<close>

datatype json =
    JNull
  | JBool bool
  | JNum rat
  | JStr string
  | JArr "json list"
  | JObj "(string \<times> json) list"

text \<open>
  What a \<open>throw\<close> carries: \<open>Error v\<close> is \<open>new Error(v)\<close>, whose message is the string
  \<open>v\<close> when \<open>v\<close> is a string; \<open>TypeError\<close> is a property read on \<open>null\<close>;
  \<open>SyntaxError\<close> is a body that is not JSON.
\<close>

datatype js_exn = Error json | TypeError | SyntaxError

fun message :: "js_exn \<Rightarrow> string option" where
  "message (Error (JStr m)) = Some m"
| "message _ = None"

fun truthy :: "json option \<Rightarrow> bool" where
  "truthy None = False"
| "truthy (Some JNull) = False"
| "truthy (Some (JBool b)) = b"
| "truthy (Some (JNum x)) = (x \<noteq> 0)"
| "truthy (Some (JStr s)) = (s \<noteq> [])"
| "truthy (Some (JArr _)) = True"
| "truthy (Some (JObj _)) = True"

fun get_prop :: "json \<Rightarrow> string \<Rightarrow> js_exn + json option" where
  "get_prop JNull k = Inl TypeError"
| "get_prop (JObj kvs) k = Inr (map_of kvs k)"
| "get_prop _ k = Inr None"

definition or_else :: "json option \<Rightarrow> json \<Rightarrow> json" where
  \<comment> \<open>the JavaScript expression \<open>v || d\<close>\<close>
  "or_else v d = (case v of None \<Rightarrow> d | Some x \<Rightarrow> (if truthy v then x else d))"

definition digit_char :: "nat \<Rightarrow> char" where
  "digit_char n = ''0123456789'' ! (n mod 10)"

fun string_of_nat :: "nat \<Rightarrow> string" where
  "string_of_nat n =
     (if n < 10 then [digit_char n] else string_of_nat (n div 10) @ [digit_char (n mod 10)])"

declare string_of_nat.simps [simp del]

definition string_of_int :: "int \<Rightarrow> string" where
  "string_of_int i = (if i < 0 then CHR ''-'' # string_of_nat (nat (- i)) else string_of_nat (nat i))"

text \<open>
  The number a string of decimal digits denotes; \<open>string_of_nat\<close> is the decimal
  rendering in that \<open>decimal_value\<close> reads it back.
\<close>

definition decimal_value :: "string \<Rightarrow> nat" where
  "decimal_value s = foldl (\<lambda>a c. 10 * a + (of_char c - 48)) 0 s"

section \<open>services/api: fetchApi\<close>

text \<open>
  The response \<open>fetch\<close> resolved with: its \<open>ok\<close> flag, its status code, and what
  \<open>response.json()\<close> gives (\<open>None\<close> when the body is not JSON, which rejects with a
  \<open>SyntaxError\<close>).
\<close>

record response =
  ok :: bool
  status :: nat
  json_body :: "json option"

definition try_catch :: "(js_exn + 'a) \<Rightarrow> (js_exn \<Rightarrow> js_exn + 'a) \<Rightarrow> js_exn + 'a" where
  "try_catch body handler = (case body of Inl e \<Rightarrow> handler e | Inr v \<Rightarrow> Inr v)"

definition api_error :: "response \<Rightarrow> string" where
  "api_error r = ''API error: '' @ string_of_nat (status r)"

text \<open>
  The body of the \<open>try\<close> block of \<open>fetchApi\<close>: read the body as JSON, then
  \<open>throw new Error(errorData.error || `API error: ${response.status}`)\<close>.
\<close>

definition throw_error_data :: "response \<Rightarrow> js_exn + json" where
  "throw_error_data r =
     (case json_body r of
        None \<Rightarrow> Inl SyntaxError
      | Some errorData \<Rightarrow>
          (case get_prop errorData ''error'' of
             Inl e \<Rightarrow> Inl e
           | Inr v \<Rightarrow> Inl (Error (or_else v (JStr (api_error r))))))"

text \<open>
  \<open>fetchApi\<close> after \<open>fetch\<close> has resolved.  The \<open>throw\<close> of the \<open>try\<close> block is
  inside the block, so the \<open>catch\<close> clause receives it and throws the generic error.
\<close>

definition fetchApi :: "response \<Rightarrow> js_exn + json" where
  "fetchApi r =
     (if \<not> ok r
      then try_catch (throw_error_data r) (\<lambda>e. Inl (Error (JStr (api_error r))))
      else (case json_body r of None \<Rightarrow> Inl SyntaxError | Some v \<Rightarrow> Inr v))"

section \<open>Dashboard: formatPercentage and getTrend\<close>

definition getTrend :: "rat option \<Rightarrow> string" where
  "getTrend percentage =
     (case percentage of
        None \<Rightarrow> ''up''
      | Some p \<Rightarrow> (if p \<ge> 0 then ''up'' else ''down''))"

text \<open>
  \<open>Number.prototype.toFixed(1)\<close> as ECMAScript defines it, on the exact value of the
  number: the sign is split off, and below \<open>10\<^sup>2\<^sup>1\<close> the digits are those of the
  integer \<open>n\<close> with \<open>n / 10\<close> nearest to the value, the larger \<open>n\<close> on a tie, padded to two
  digits, with the point before the last one.  From \<open>10\<^sup>2\<^sup>1\<close> on the runtime's
  \<open>ToString\<close> is used, which is the parameter \<open>numberToString\<close>.
\<close>

definition toFixed1 :: "(rat \<Rightarrow> string) \<Rightarrow> rat \<Rightarrow> string" where
  "toFixed1 numberToString x0 =
     (let s = (if x0 < 0 then ''-'' else []);
          x = (if x0 < 0 then - x0 else x0)
      in if x \<ge> 10 ^ 21 then s @ numberToString x
         else
           (let n = nat \<lfloor>x * 10 + 1 / 2\<rfloor>;
                m0 = string_of_nat n;
                m = (if length m0 \<le> 1 then replicate (2 - length m0) (CHR ''0'') @ m0 else m0);
                k = length m
            in s @ take (k - 1) m @ ''.'' @ drop (k - 1) m))"

definition formatPercentage :: "(rat \<Rightarrow> string) \<Rightarrow> rat option \<Rightarrow> string" where
  "formatPercentage numberToString percentage =
     (case percentage of
        None \<Rightarrow> ''N/A''
      | Some p \<Rightarrow>
          (if p > 0 then ''+'' @ toFixed1 numberToString p @ ''%''
           else toFixed1 numberToString p @ ''%''))"

section \<open>PatientRecords: client-side search and deletion\<close>

text \<open>
  A JavaScript string is a sequence of UTF-16 code units.  \<open>utf16\<close> gives the code units
  of a text of ASCII characters, one unit for each.
\<close>

type_synonym js_string = "16 word list"

definition utf16 :: "string \<Rightarrow> js_string" where
  "utf16 s = map of_char s"

text \<open>
  What \<open>String.prototype.trim\<close> strips: the white space and line terminators of
  ECMAScript, that is tab, line feed, vertical tab, form feed, carriage return, space,
  no-break space, U+1680, U+2000 to U+200A, U+2028, U+2029, U+202F, U+205F, U+3000 and
  U+FEFF.
\<close>

definition is_space :: "16 word \<Rightarrow> bool" where
  "is_space u =
     (u \<in> set [0x9, 0xA, 0xB, 0xC, 0xD, 0x20, 0xA0, 0x1680, 0x2028, 0x2029, 0x202F, 0x205F,
        0x3000, 0xFEFF]
      \<or> (0x2000 \<le> u \<and> u \<le> 0x200A))"

definition trim :: "js_string \<Rightarrow> js_string" where
  "trim s = rev (dropWhile is_space (rev (dropWhile is_space s)))"

text \<open>\<open>s.includes(t)\<close>: \<open>t\<close> occurs in \<open>s\<close> at some position.\<close>

fun str_includes :: "js_string \<Rightarrow> js_string \<Rightarrow> bool" where
  "str_includes [] t = (t = [])"
| "str_includes (c # s) t = (prefix t (c # s) \<or> str_includes s t)"

text \<open>
  \<open>String.prototype.toLowerCase\<close> is the runtime's Unicode case conversion; it is the
  parameter \<open>toLowerCase\<close> of what follows.  On a text of ASCII characters it is
  \<open>ascii_lower\<close>, which the examples take for it.
\<close>

definition ascii_lower :: "js_string \<Rightarrow> js_string" where
  "ascii_lower s = map (\<lambda>u. if 65 \<le> u \<and> u \<le> 90 then u + 32 else u) s"

record patient =
  patient_id :: js_string
  name :: js_string
  age :: int
  gender :: js_string
  lastVisit :: js_string
  nextAppointment :: js_string
  contact :: js_string

definition filterPatients ::
  "(js_string \<Rightarrow> js_string) \<Rightarrow> patient list \<Rightarrow> js_string \<Rightarrow> patient list" where
  "filterPatients toLowerCase patients query =
     (if trim query = [] then patients
      else
        (let searchTerm = trim (toLowerCase query)
         in filter (\<lambda>patient.
              str_includes (toLowerCase (name patient)) searchTerm
              \<or> str_includes (toLowerCase (gender patient)) searchTerm
              \<or> str_includes (toLowerCase (contact patient)) searchTerm
              \<or> str_includes (utf16 (string_of_int (age patient))) searchTerm) patients))"

record pagination =
  total :: int
  page :: int
  limit :: int
  pages :: int

record patient_records =
  patients :: "patient list"
  searchQuery :: js_string
  sortField :: string
  sortDirection :: string
  pagination :: pagination
  selectedPatient :: "patient option"

text \<open>
  The rows of the table are \<open>filteredAndSortedPatients\<close>: a copy of the filtered page,
  sorted in place.  Sorting reorders the copy, so the table has the rows of
  \<open>displayed_rows\<close> and as many of them.
\<close>

definition displayed_rows ::
  "(js_string \<Rightarrow> js_string) \<Rightarrow> patient_records \<Rightarrow> patient list" where
  "displayed_rows toLowerCase st = filterPatients toLowerCase (patients st) (searchQuery st)"

text \<open>
  \<open>handleDeleteConfirm\<close>, with the outcome of \<open>patientApi.deletePatient\<close> as the argument
  \<open>deleted\<close>.  The result is the page number passed to \<open>patientApi.getPatients\<close>; it is
  \<open>None\<close> when no patient is selected or the deletion fails, where nothing is refetched.
\<close>

definition handleDeleteConfirm ::
  "(js_string \<Rightarrow> js_string) \<Rightarrow> patient_records \<Rightarrow> bool \<Rightarrow> int option" where
  "handleDeleteConfirm toLowerCase st deleted =
     (case selectedPatient st of
        None \<Rightarrow> None
      | Some p \<Rightarrow>
          (if \<not> deleted then None
           else
             (let currentPage = page (pagination st);
                  itemsOnCurrentPage = length (displayed_rows toLowerCase st);
                  newPage = (if itemsOnCurrentPage = 1 \<and> currentPage > 1
                             then currentPage - 1 else currentPage)
              in Some newPage)))"

text \<open>Two patients of a fetched page, and the list on its second page with one of them.\<close>

definition example_ana :: patient where
  "example_ana =
     \<lparr>patient_id = utf16 ''C7'', name = utf16 ''Ana Diaz'', age = 42,
      gender = utf16 ''Female'', lastVisit = utf16 ''01/10/2024'', nextAppointment = [],
      contact = utf16 ''N/A''\<rparr>"

definition example_bo :: patient where
  "example_bo =
     \<lparr>patient_id = utf16 ''C9'', name = utf16 ''Bo Li'', age = 35,
      gender = utf16 ''Male'', lastVisit = utf16 ''02/10/2024'', nextAppointment = [],
      contact = utf16 ''555-0100''\<rparr>"

definition example_records :: patient_records where
  "example_records =
     \<lparr>patients = [example_ana], searchQuery = [], sortField = ''name'',
      sortDirection = ''asc'',
      pagination = \<lparr>total = 101, page = 2, limit = 100, pages = 2\<rparr>,
      selectedPatient = Some example_ana\<rparr>"

section \<open>Dates at the API boundary\<close>

text \<open>\<open>s.split(sep)\<close> for a one-character separator.\<close>

fun str_split :: "char \<Rightarrow> string \<Rightarrow> string list" where
  "str_split sep [] = [[]]"
| "str_split sep (c # cs) =
     (if c = sep then [] # str_split sep cs
      else (case str_split sep cs of [] \<Rightarrow> [[c]] | p # ps \<Rightarrow> (c # p) # ps))"

text \<open>
  An element bound by the destructuring \<open>const [year, month, day] = ...\<close>, as a template
  literal renders it: a missing element is \<open>undefined\<close>.
\<close>

definition element :: "string list \<Rightarrow> nat \<Rightarrow> string" where
  "element parts i = (if i < length parts then parts ! i else ''undefined'')"

text \<open>
  \<open>formatDateForAPI\<close> of the new-visit form and of the edit-patient form (whose
  \<open>try\<close> block cannot throw on a string).
\<close>

definition formatDateForAPI :: "string option \<Rightarrow> string" where
  "formatDateForAPI dateStr =
     (case dateStr of
        None \<Rightarrow> []
      | Some s \<Rightarrow>
          (if s = [] then []
           else
             (let parts = str_split (CHR ''-'') s;
                  year = element parts 0; month = element parts 1; day = element parts 2
              in month @ ''/'' @ day @ ''/'' @ year)))"

text \<open>
  \<open>dashboardApi.getMetrics\<close>: the endpoint handed to \<open>fetchApi\<close>.  The dashboard calls
  it with the values of its two date inputs.
\<close>

definition getMetrics :: "string option \<Rightarrow> string option \<Rightarrow> string" where
  "getMetrics startDate endDate =
     (let url = ''/dashboard/metrics''
      in (case (startDate, endDate) of
            (Some s, Some e) \<Rightarrow>
              (if s \<noteq> [] \<and> e \<noteq> [] then url @ ''?start_date='' @ s @ ''&end_date='' @ e
               else url)
          | _ \<Rightarrow> url))"

definition is_digit :: "char \<Rightarrow> bool" where
  "is_digit c = (c \<in> set ''0123456789'')"

text \<open>The two date formats: \<open>YYYY-MM-DD\<close> of a date input, \<open>MM/DD/YYYY\<close> of the API.\<close>

fun ui_date :: "string \<Rightarrow> bool" where
  "ui_date [y1, y2, y3, y4, a, m1, m2, b, d1, d2] =
     (a = CHR ''-'' \<and> b = CHR ''-'' \<and> list_all is_digit [y1, y2, y3, y4, m1, m2, d1, d2])"
| "ui_date _ = False"

fun api_date :: "string \<Rightarrow> bool" where
  "api_date [m1, m2, a, d1, d2, b, y1, y2, y3, y4] =
     (a = CHR ''/'' \<and> b = CHR ''/'' \<and> list_all is_digit [m1, m2, d1, d2, y1, y2, y3, y4])"
| "api_date _ = False"

section \<open>EditPatientForm: goal flags\<close>

definition GOAL_MAPPING :: "(string \<times> string) list" where
  "GOAL_MAPPING =
     [(''increased_fruit_veg'', ''INCREASED DAILY FRUIT/ VEGETABLE PORTIONS''),
      (''increased_water'', ''INCREASE DAILY WATER INTAKE''),
      (''increased_exercise'', ''INCREASED WEEKLY EXERCISE''),
      (''cut_tv_viewing'', ''CUT TV VIEWING TO < 2 HOURS/ DAY''),
      (''eat_breakfast'', ''EAT BREAKFAST DAILY''),
      (''limit_alcohol'', ''LIMIT DAILY ALCOHOL CONSUMPTION WOMAN =1, MAN=2''),
      (''no_late_eating'', ''DO NOT EAT AT LEAST 3 HOURS BEFORE GOING TO BED''),
      (''more_whole_grains'', ''EATS MORE WHOLE WHEAT/ GRAINS DAILY''),
      (''less_fried_foods'', ''EATS LESS FRIED FOODS OR MEATS''),
      (''low_fat_milk'', ''DRINKS LOW FAT OR SKIM MILK''),
      (''lower_salt'', ''LOWERED SALT INTAKE''),
      (''annual_checkup'', ''RECEIVE AN ANNUAL CHECK-UP''),
      (''quit_smoking'', ''QUIT SMOKING'')]"

text \<open>
  \<open>getActiveGoalsFromData\<close>: the entries of the goals object, in property order, that
  are not identifying fields and hold the number 1, mapped to their display names;
  a key without a display name gives the empty string, which \<open>filter(Boolean)\<close> drops.
\<close>

definition getActiveGoalsFromData :: "(string \<times> json) list option \<Rightarrow> string list" where
  "getActiveGoalsFromData goalsData =
     (case goalsData of
        None \<Rightarrow> []
      | Some entries \<Rightarrow>
          filter (\<lambda>s. s \<noteq> [])
            (map (\<lambda>(key, _). case map_of GOAL_MAPPING key of Some v \<Rightarrow> v | None \<Rightarrow> [])
              (filter (\<lambda>(key, value).
                   if key = ''client_id'' \<or> key = ''visit_date'' \<or> key = ''visit_id''
                   then False else value = JNum 1) entries)))"

text \<open>
  The goals part of \<open>handleSubmit\<close>.  An assignment \<open>goalsData[apiKey] = v\<close> replaces the
  value of a key the object has and appends a key it has not, which is \<open>AList.update\<close>.
\<close>

definition init_goals :: "(string \<times> json) list" where
  "init_goals = foldl (\<lambda>goalsData apiKey. AList.update apiKey (JNum 0) goalsData) []
     (map fst GOAL_MAPPING)"

definition select_goal :: "(string \<times> json) list \<Rightarrow> string \<Rightarrow> (string \<times> json) list" where
  "select_goal goalsData goal =
     (case find (\<lambda>(_, value). value = goal) GOAL_MAPPING of
        None \<Rightarrow> goalsData
      | Some (apiKey, _) \<Rightarrow>
          (if apiKey \<noteq> [] then AList.update apiKey (JNum 1) goalsData else goalsData))"

definition submitted_goals :: "string list \<Rightarrow> (string \<times> json) list" where
  "submitted_goals selectedGoals = foldl select_goal init_goals selectedGoals"

text \<open>
  The goals record of the specification's example: \<open>increased_water\<close> set, the other
  twelve flags clear.
\<close>

definition example_goals :: "(string \<times> json) list" where
  "example_goals =
     [(''increased_fruit_veg'', JNum 0), (''increased_water'', JNum 1),
      (''increased_exercise'', JNum 0), (''cut_tv_viewing'', JNum 0),
      (''eat_breakfast'', JNum 0), (''limit_alcohol'', JNum 0),
      (''no_late_eating'', JNum 0), (''more_whole_grains'', JNum 0),
      (''less_fried_foods'', JNum 0), (''low_fat_milk'', JNum 0),
      (''lower_salt'', JNum 0), (''annual_checkup'', JNum 0),
      (''quit_smoking'', JNum 0)]"

section \<open>Form payloads: visit creation and patient edit\<close>

text \<open>
  \<open>formData.get(name)\<close> is the text of the field, or \<open>null\<close> (\<open>None\<close>) when the form has
  no such field.  \<open>Number\<close> of the runtime is the parameter \<open>toNumber\<close>.
\<close>

definition field_value :: "string option \<Rightarrow> json" where
  "field_value v = (case v of None \<Rightarrow> JNull | Some s \<Rightarrow> JStr s)"

definition number_or_null :: "(string \<Rightarrow> json) \<Rightarrow> string option \<Rightarrow> json" where
  \<comment> \<open>\<open>formData.get(name) ? Number(formData.get(name)) : null\<close>\<close>
  "number_or_null toNumber v =
     (case v of None \<Rightarrow> JNull | Some s \<Rightarrow> (if s \<noteq> [] then toNumber s else JNull))"

text \<open>
  The object \<open>visitData\<close> that \<open>handleSubmit\<close> of the new-visit form posts.  \<open>now\<close> is the
  current time as \<open>toLocaleTimeString\<close> renders it; \<open>goals\<close> is the goals object, or
  \<open>None\<close> when the property is \<open>undefined\<close> or not spread in, which \<open>JSON.stringify\<close>
  leaves out.
\<close>

definition visitData ::
  "(string \<Rightarrow> json) \<Rightarrow> string \<Rightarrow> (string \<Rightarrow> string option) \<Rightarrow> string \<Rightarrow> json option
     \<Rightarrow> (string \<times> json) list" where
  "visitData toNumber clientId formData now goals =
     [(''client_id'', JStr clientId),
      (''visit_date'', JStr (formatDateForAPI (formData ''visitDate''))),
      (''visit_time'', or_else (Some (field_value (formData ''visitTime''))) (JStr now)),
      (''event_type'', field_value (formData ''eventType'')),
      (''referral_source'', field_value (formData ''referralSource'')),
      (''follow_up'', field_value (formData ''followUp'')),
      (''hra'', field_value (formData ''hra'')),
      (''edu'', field_value (formData ''edu'')),
      (''case_management'', field_value (formData ''caseManagement'')),
      (''systolic'', number_or_null toNumber (formData ''systolic'')),
      (''diastolic'', number_or_null toNumber (formData ''diastolic'')),
      (''cholesterol'', number_or_null toNumber (formData ''cholesterol'')),
      (''fasting'', field_value (formData ''fasting'')),
      (''glucose'', number_or_null toNumber (formData ''glucose'')),
      (''height'', number_or_null toNumber (formData ''height'')),
      (''weight'', number_or_null toNumber (formData ''weight'')),
      (''a1c'', number_or_null toNumber (formData ''a1c'')),
      (''acquired_by'', field_value (formData ''acquiredBy''))]
     @ (case goals of None \<Rightarrow> [] | Some g \<Rightarrow> [(''goals'', g)])"

text \<open>
  The object \<open>data\<close> that \<open>handleSubmit\<close> of the edit-patient form hands to
  \<open>patientApi.updatePatient\<close>, which posts it.  \<open>Number(formData.get('age'))\<close> is 0 for a
  form without the field; \<open>client_id\<close> is that of the patient edited; the goals are those
  of \<open>submitted_goals\<close>.
\<close>

definition editPatientData ::
  "(string \<Rightarrow> json) \<Rightarrow> string \<Rightarrow> (string \<Rightarrow> string option) \<Rightarrow> string list
     \<Rightarrow> (string \<times> json) list" where
  "editPatientData toNumber client_id formData selectedGoals =
     [(''first_name'', field_value (formData ''firstName'')),
      (''last_name'', field_value (formData ''lastName'')),
      (''gender'', field_value (formData ''gender'')),
      (''age'', (case formData ''age'' of None \<Rightarrow> JNum 0 | Some s \<Rightarrow> toNumber s)),
      (''race'', field_value (formData ''race'')),
      (''primary_lang'', field_value (formData ''primaryLanguage'')),
      (''insurance'', field_value (formData ''insurance'')),
      (''phone'', field_value (formData ''phone'')),
      (''zipcode'', field_value (formData ''zipCode'')),
      (''height'', field_value (formData ''height'')),
      (''birthdate'', JStr (formatDateForAPI (formData ''birthdate''))),
      (''client_id'', JStr client_id),
      (''goals'', JObj (submitted_goals selectedGoals))]"

text \<open>
  \<open>addPatientVisit\<close> of \<open>static/profile.js\<close>: the object it posts, from the values of the
  page's inputs (\<open>document.getElementById(id).value\<close>, the argument \<open>input\<close>).
\<close>

definition value_or :: "string \<Rightarrow> json \<Rightarrow> json" where
  \<comment> \<open>\<open>document.getElementById(id).value || d\<close>\<close>
  "value_or s d = or_else (Some (JStr s)) d"

definition addPatientVisit_formData :: "(string \<Rightarrow> string) \<Rightarrow> (string \<times> json) list" where
  "addPatientVisit_formData input =
     [(''visit_date'', JStr (input ''visitDate'')),
      (''event_type'', JStr (input ''eventType'')),
      (''referral_source'', JStr (input ''referralSource'')),
      (''follow_up'', JStr (input ''followUp'')),
      (''hra'', value_or (input ''hra'') (JNum 0)),
      (''edu'', value_or (input ''edu'') (JNum 0)),
      (''case_management'', value_or (input ''caseManagement'') (JNum 0)),
      (''systolic'', value_or (input ''systolic'') (JNum 0)),
      (''diastolic'', value_or (input ''diastolic'') (JNum 0)),
      (''cholesterol'', value_or (input ''cholesterol'') (JNum 0)),
      (''fasting'', value_or (input ''fasting'') (JStr ''No'')),
      (''glucose'', value_or (input ''glucose'') (JNum 0)),
      (''height'', value_or (input ''height'') (JNum 0)),
      (''weight'', value_or (input ''weight'') (JNum 0)),
      (''bmi'', value_or (input ''bmi'') (JNum 0)),
      (''a1c'', value_or (input ''a1c'') (JNum 0)),
      (''acquired_by'', value_or (input ''acquiredBy'') (JStr []))]"

definition measurement_fields :: "string list" where
  "measurement_fields =
     [''systolic'', ''diastolic'', ''cholesterol'', ''glucose'', ''height'', ''weight'', ''a1c'']"

section \<open>PatientDetail: recent changes between the two latest visits\<close>

text \<open>
  \<open>latest_changes\<close> of \<open>PatientDetailData\<close>, as the patient-detail view receives it.
\<close>

record latest_changes =
  systolic_change :: "string option"
  diastolic_change :: "string option"
  cholesterol_change :: "string option"
  glucose_change :: "string option"
  weight_change :: "string option"
  bmi_change :: "string option"
  a1c_change :: "string option"
  weight_percentage_change :: "string option"

text \<open>
  A row of the "Recent Changes" card: its label, its text, and the parenthesised note
  after it.  A change that is absent or the empty string has no row.
\<close>

definition change_row ::
  "string \<Rightarrow> string option \<Rightarrow> string \<Rightarrow> string option
     \<Rightarrow> (string \<times> string \<times> string option) list" where
  "change_row label change unit note =
     (case change of
        None \<Rightarrow> []
      | Some c \<Rightarrow>
          (if c = [] then []
           else [(label, c @ unit,
                  (case note of
                     None \<Rightarrow> None
                   | Some p \<Rightarrow> (if p = [] then None else Some (''('' @ p @ '')''))))]))"

text \<open>The card itself; \<open>None\<close> when \<open>latest_changes\<close> is null and nothing is rendered.\<close>

definition recent_changes ::
  "latest_changes option \<Rightarrow> (string \<times> string \<times> string option) list option" where
  "recent_changes changes =
     (case changes of
        None \<Rightarrow> None
      | Some c \<Rightarrow>
          Some (change_row ''Systolic Blood Pressure'' (systolic_change c) '' mmHg'' None
              @ change_row ''Diastolic Blood Pressure'' (diastolic_change c) '' mmHg'' None
              @ change_row ''Cholesterol'' (cholesterol_change c) '' mg/dL'' None
              @ change_row ''Blood Glucose'' (glucose_change c) '' mg/dL'' None
              @ change_row ''Weight'' (weight_change c) '' lbs'' (weight_percentage_change c)
              @ change_row ''BMI'' (bmi_change c) [] None
              @ change_row ''A1C'' (a1c_change c) ''%'' None))"

text \<open>
  Modelled from the spec: the derived-metrics computation of the backend, which is not
  among the sources.  The specification gives a patient's ordered visit history, of which
  the two most recent visits are compared for each tracked metric: the signed delta, and
  for the weight the percent change of the earlier value, to one decimal.  Fewer than two
  visits give no data; a metric missing in either visit is skipped; a zero denominator
  gives a percent change that is not applicable.  Measurements are whole numbers, as in
  the specification's example; a positive change carries \<open>+\<close>, which is what the view
  tests for.  Division is checked, so that a division by zero is the error
  \<open>DivideByZero\<close>.
\<close>

datatype calc_error = DivideByZero

text \<open>Modelled from the spec: a visit with its tracked metrics, each possibly missing.\<close>

record visit =
  visit_date :: string
  systolic :: "int option"
  diastolic :: "int option"
  cholesterol :: "int option"
  glucose :: "int option"
  weight :: "int option"
  bmi :: "int option"
  a1c :: "int option"

text \<open>Modelled from the spec: division that reports a zero denominator as an error.\<close>

definition checked_div :: "rat \<Rightarrow> rat \<Rightarrow> calc_error + rat" where
  "checked_div a b = (if b = 0 then Inl DivideByZero else Inr (a / b))"

text \<open>Modelled from the spec: the signed delta, as in \<open>-10\<close>.\<close>

definition signed_text :: "int \<Rightarrow> string" where
  "signed_text d = (if d > 0 then ''+'' @ string_of_int d else string_of_int d)"

text \<open>Modelled from the spec: a signed value to one decimal, as in \<open>-5.0\<close>.\<close>

definition one_decimal :: "rat \<Rightarrow> string" where
  "one_decimal p =
     (let n = nat \<lfloor>\<bar>p\<bar> * 10 + 1 / 2\<rfloor>
      in (if p > 0 then ''+'' else if p < 0 then ''-'' else [])
         @ string_of_nat (n div 10) @ ''.'' @ string_of_nat (n mod 10))"

text \<open>Modelled from the spec: the delta of one metric; a missing value skips the metric.\<close>

definition delta :: "int option \<Rightarrow> int option \<Rightarrow> string option" where
  "delta earlier later =
     (case (earlier, later) of
        (Some a, Some b) \<Rightarrow> Some (signed_text (b - a))
      | _ \<Rightarrow> None)"

text \<open>
  Modelled from the spec: the percent change of the earlier value; not applicable for a
  zero denominator.
\<close>

definition percent_change :: "int option \<Rightarrow> int option \<Rightarrow> calc_error + string option" where
  "percent_change earlier later =
     (case (earlier, later) of
        (Some a, Some b) \<Rightarrow>
          (if a = 0 then Inr None
           else (case checked_div (of_int (b - a) * 100) (of_int a) of
                   Inl e \<Rightarrow> Inl e
                 | Inr p \<Rightarrow> Inr (Some (one_decimal p @ ''%''))))
      | _ \<Rightarrow> Inr None)"

text \<open>
  Modelled from the spec: the changes between the two most recent visits of a history
  ordered from the oldest visit to the latest; no data below two visits.
\<close>

definition compute_latest_changes :: "visit list \<Rightarrow> calc_error + latest_changes option" where
  "compute_latest_changes visits =
     (if length visits < 2 then Inr None
      else
        (let earlier = visits ! (length visits - 2);
             later = visits ! (length visits - 1)
         in (case percent_change (weight earlier) (weight later) of
               Inl e \<Rightarrow> Inl e
             | Inr pct \<Rightarrow>
                 Inr (Some \<lparr>systolic_change = delta (systolic earlier) (systolic later),
                            diastolic_change = delta (diastolic earlier) (diastolic later),
                            cholesterol_change = delta (cholesterol earlier) (cholesterol later),
                            glucose_change = delta (glucose earlier) (glucose later),
                            weight_change = delta (weight earlier) (weight later),
                            bmi_change = delta (bmi earlier) (bmi later),
                            a1c_change = delta (a1c earlier) (a1c later),
                            weight_percentage_change = pct\<rparr>))))"

text \<open>
  The two visits of the specification's example, and an older visit of the same patient.
\<close>

definition visit_jan :: visit where
  "visit_jan =
     \<lparr>visit_date = ''2024-01-10'', systolic = None, diastolic = None, cholesterol = None,
      glucose = None, weight = Some 200, bmi = None, a1c = None\<rparr>"

definition visit_feb :: visit where
  "visit_feb =
     \<lparr>visit_date = ''2024-02-10'', systolic = None, diastolic = None, cholesterol = None,
      glucose = None, weight = Some 190, bmi = None, a1c = None\<rparr>"

definition visit_older :: visit where
  "visit_older =
     \<lparr>visit_date = ''2023-11-02'', systolic = Some 130, diastolic = Some 85,
      cholesterol = None, glucose = None, weight = Some 230, bmi = None, a1c = None\<rparr>"

section \<open>Properties\<close>

subsection \<open>Decimal rendering\<close>

lemma string_of_nat_digit: "n < 10 \<Longrightarrow> string_of_nat n = [digit_char n]"
  by (subst string_of_nat.simps) simp

lemma string_of_nat_step:
  "10 \<le> n \<Longrightarrow> string_of_nat n = string_of_nat (n div 10) @ [digit_char (n mod 10)]"
  by (subst string_of_nat.simps) simp

lemma string_of_nat_nonempty: "string_of_nat n \<noteq> []"
  by (subst string_of_nat.simps) simp

lemma toFixed_digits:
  "(let m0 = string_of_nat n;
        m = (if length m0 \<le> 1 then replicate (2 - length m0) (CHR ''0'') @ m0 else m0);
        k = length m
    in take (k - 1) m @ ''.'' @ drop (k - 1) m)
   = string_of_nat (n div 10) @ ''.'' @ string_of_nat (n mod 10)"
proof (cases "n < 10")
  case True
  then have "string_of_nat n = [digit_char n]" "string_of_nat (n div 10) = [digit_char 0]"
    "string_of_nat (n mod 10) = [digit_char n]"
    by (simp_all add: string_of_nat_digit)
  then show ?thesis
    by (simp add: Let_def digit_char_def)
next
  case False
  then have step: "string_of_nat n = string_of_nat (n div 10) @ [digit_char (n mod 10)]"
    by (simp add: string_of_nat_step)
  have last: "string_of_nat (n mod 10) = [digit_char (n mod 10)]"
    by (simp add: string_of_nat_digit)
  have "length (string_of_nat (n div 10)) \<noteq> 0"
    using string_of_nat_nonempty by simp
  then show ?thesis
    by (simp add: Let_def step last)
qed

lemma round_tenths_near:
  fixes x :: rat
  assumes "0 \<le> x"
  shows "\<bar>of_nat (nat \<lfloor>x * 10 + 1 / 2\<rfloor>) / 10 - x\<bar> \<le> 1 / 20"
proof -
  let ?f = "\<lfloor>x * 10 + 1 / 2\<rfloor>"
  have nonneg: "0 \<le> ?f" using assms by simp
  have lo: "of_int ?f \<le> x * 10 + 1 / 2" by (rule of_int_floor_le)
  have hi: "x * 10 + 1 / 2 < of_int ?f + 1" by linarith
  have eq: "(of_nat (nat ?f) :: rat) = of_int ?f" using nonneg by simp
  show ?thesis unfolding eq using lo hi by linarith
qed

lemma toFixed1_below:
  assumes "\<bar>x\<bar> < 10 ^ 21"
  shows "toFixed1 ts x = (if x < 0 then ''-'' else []) @
     string_of_nat (nat \<lfloor>\<bar>x\<bar> * 10 + 1 / 2\<rfloor> div 10) @ ''.'' @
     string_of_nat (nat \<lfloor>\<bar>x\<bar> * 10 + 1 / 2\<rfloor> mod 10)"
proof -
  have abs: "(if x < 0 then - x else x) = \<bar>x\<bar>" by simp
  have small: "\<not> 10 ^ 21 \<le> \<bar>x\<bar>" using assms by simp
  show ?thesis
    unfolding toFixed1_def abs Let_def
    using small toFixed_digits[of "nat \<lfloor>\<bar>x\<bar> * 10 + 1 / 2\<rfloor>", unfolded Let_def]
    by simp
qed

lemma digit_char_value: "n < 10 \<Longrightarrow> (of_char (digit_char n) :: nat) - 48 = n"
proof -
  assume "n < 10"
  then have "n \<in> set [0..<10]" by simp
  moreover have "\<forall>k\<in>set [0..<10]. (of_char (digit_char k) :: nat) - 48 = k"
    by code_simp
  ultimately show ?thesis by blast
qed

lemma decimal_value_string_of_nat: "decimal_value (string_of_nat n) = n"
proof (induction n rule: string_of_nat.induct)
  case (1 n)
  show ?case
  proof (cases "n < 10")
    case True
    then show ?thesis by (simp add: string_of_nat_digit decimal_value_def digit_char_value)
  next
    case False
    then have "decimal_value (string_of_nat (n div 10)) = n div 10" using 1 by simp
    then show ?thesis using False
      by (simp add: string_of_nat_step decimal_value_def digit_char_value)
  qed
qed

subsection \<open>fetchApi\<close>

lemma fetchApi_not_ok:
  "\<not> ok r \<Longrightarrow> fetchApi r = Inl (Error (JStr (api_error r)))"
  by (simp add: fetchApi_def try_catch_def throw_error_data_def
      split: option.split sum.split)

text \<open>
  C1. A non-OK response whose JSON body carries an \<open>error\<close> field with message \<open>m\<close>
  should make \<open>fetchApi\<close> throw an error with message \<open>m\<close>.  For status 404 and body
  \<open>{"error": "Patient not found"}\<close> the thrown message is \<open>API error: 404\<close> instead:
  the server's message is thrown inside the \<open>try\<close> block and replaced by its
  \<open>catch\<close> clause.
\<close>

theorem fetchApi_drops_server_message:
  "fetchApi \<lparr>ok = False, status = 404,
      json_body = Some (JObj [(''error'', JStr ''Patient not found'')])\<rparr>
     = Inl (Error (JStr ''API error: 404''))
   \<and> message (Error (JStr ''API error: 404'')) \<noteq> Some ''Patient not found''"
  by (simp add: fetchApi_def try_catch_def throw_error_data_def api_error_def digit_char_def
      or_else_def string_of_nat.simps)

subsection \<open>Dashboard\<close>

text \<open>
  C9. \<open>getTrend\<close> maps a null change and a zero change to \<open>up\<close>; it yields \<open>down\<close>
  for a strictly negative change and for nothing else.
\<close>

theorem getTrend_null_zero_up:
  "getTrend None = ''up'' \<and> getTrend (Some 0) = ''up''
   \<and> (getTrend p = ''down'') = (\<exists>x. p = Some x \<and> x < 0)"
  by (auto simp: getTrend_def split: option.split)

text \<open>
  C7. A null change is rendered as \<open>N/A\<close>.  Any other change \<open>x\<close> is rendered as
  the tenths \<open>n\<close> nearest to its magnitude, written with one decimal, with a minus sign
  when \<open>x\<close> is negative, followed by \<open>%\<close>, and prefixed with \<open>+\<close> exactly when \<open>x\<close>
  is strictly positive.  Changes are below \<open>10\<^sup>2\<^sup>1\<close> in magnitude, where \<open>toFixed\<close>
  writes fixed notation.
\<close>

theorem formatPercentage_rounds_one_decimal:
  "formatPercentage ts None = ''N/A'' \<and>
   (\<bar>x\<bar> < 10 ^ 21 \<longrightarrow>
      (\<exists>n::nat. \<bar>of_nat n / 10 - \<bar>x\<bar>\<bar> \<le> 1 / 20 \<and>
         formatPercentage ts (Some x) =
           (if 0 < x then ''+'' else []) @ (if x < 0 then ''-'' else []) @
           string_of_nat (n div 10) @ ''.'' @ string_of_nat (n mod 10) @ ''%''))"
proof (intro conjI impI)
  show "formatPercentage ts None = ''N/A''"
    by (simp add: formatPercentage_def)
next
  assume small: "\<bar>x\<bar> < 10 ^ 21"
  let ?n = "nat \<lfloor>\<bar>x\<bar> * 10 + 1 / 2\<rfloor>"
  have near: "\<bar>of_nat ?n / 10 - \<bar>x\<bar>\<bar> \<le> 1 / 20"
    by (rule round_tenths_near) simp
  have "formatPercentage ts (Some x) =
           (if 0 < x then ''+'' else []) @ (if x < 0 then ''-'' else []) @
           string_of_nat (?n div 10) @ ''.'' @ string_of_nat (?n mod 10) @ ''%''"
    by (simp add: formatPercentage_def toFixed1_below[OF small])
  with near show "\<exists>n::nat. \<bar>of_nat n / 10 - \<bar>x\<bar>\<bar> \<le> 1 / 20 \<and>
         formatPercentage ts (Some x) =
           (if 0 < x then ''+'' else []) @ (if x < 0 then ''-'' else []) @
           string_of_nat (n div 10) @ ''.'' @ string_of_nat (n mod 10) @ ''%''"
    by blast
qed

theorem formatPercentage_rounds_one_decimal_witness:
  "formatPercentage (\<lambda>_. []) None = ''N/A'' \<and>
   \<bar>617 / 50 :: rat\<bar> < 10 ^ 21 \<and>
      (\<exists>n::nat. \<bar>of_nat n / 10 - \<bar>617 / 50 :: rat\<bar>\<bar> \<le> 1 / 20 \<and>
         formatPercentage (\<lambda>_. []) (Some (617 / 50)) =
           ''+'' @ string_of_nat (n div 10) @ ''.'' @ string_of_nat (n mod 10) @ ''%'')"
  using formatPercentage_rounds_one_decimal [of "\<lambda>_. []" "617 / 50"] by simp

lemma formatPercentage_example: "formatPercentage (\<lambda>_. []) (Some (617 / 50)) = ''+12.3%''"
  by code_simp

subsection \<open>PatientRecords\<close>

lemma str_includes_sublist: "str_includes s t \<longleftrightarrow> sublist t s"
  by (induction s) (simp_all add: sublist_Cons_right)

lemma trim_empty_iff: "trim q = [] \<longleftrightarrow> (\<forall>c\<in>set q. is_space c)"
proof
  assume "trim q = []"
  then have "dropWhile is_space (rev (dropWhile is_space q)) = []" by (simp add: trim_def)
  then have "\<forall>c\<in>set (dropWhile is_space q). is_space c" by (simp add: dropWhile_eq_Nil_conv)
  moreover have "\<forall>c\<in>set (takeWhile is_space q). is_space c" by (auto dest: set_takeWhileD)
  moreover have "set q = set (takeWhile is_space q) \<union> set (dropWhile is_space q)"
    by (metis set_append takeWhile_dropWhile_id)
  ultimately show "\<forall>c\<in>set q. is_space c" by blast
next
  assume "\<forall>c\<in>set q. is_space c"
  then have "dropWhile is_space q = []" by (metis dropWhile_eq_Nil_conv)
  then show "trim q = []" by (simp add: trim_def del: dropWhile_eq_Nil_conv)
qed

lemma trim_no_break_space: "trim [0xA0] = [] \<and> trim [0xFEFF, 0x2003] = []"
  by (simp add: trim_def is_space_def)

text \<open>
  C6. For whatever \<open>toLowerCase\<close> is, the client-side search keeps, in order, exactly the
  patients of the fetched page for which the lower-cased and trimmed query occurs in the
  lower-cased name, gender or contact, or in the decimal rendering of the age; a query
  that is empty or all white space keeps every patient.
\<close>

theorem filterPatients_substring_search:
  "filterPatients toLowerCase ps q =
     (if (\<forall>u\<in>set q. is_space u) then ps
      else filter (\<lambda>p.
          sublist (trim (toLowerCase q)) (toLowerCase (name p))
          \<or> sublist (trim (toLowerCase q)) (toLowerCase (gender p))
          \<or> sublist (trim (toLowerCase q)) (toLowerCase (contact p))
          \<or> sublist (trim (toLowerCase q)) (utf16 (string_of_int (age p)))) ps)"
  by (simp add: filterPatients_def trim_empty_iff str_includes_sublist Let_def)

theorem filterPatients_substring_search_witness:
  "(\<exists>u\<in>set (utf16 '' AnA ''). \<not> is_space u)
   \<and> filterPatients ascii_lower [example_ana, example_bo] (utf16 '' AnA '') = [example_ana]
   \<and> filterPatients ascii_lower [example_ana, example_bo] [0xA0, 0x20] = [example_ana, example_bo]"
  unfolding filterPatients_substring_search by code_simp

text \<open>
  C10. After a successful deletion of the selected patient, a row of the table, the page
  refetched is the current page minus one exactly when that patient was the only row
  displayed and the current page exceeds 1; otherwise it is the current page.
\<close>

theorem handleDeleteConfirm_page:
  assumes "selectedPatient st = Some p" and "p \<in> set (displayed_rows toLowerCase st)"
  shows "handleDeleteConfirm toLowerCase st True =
     Some (if displayed_rows toLowerCase st = [p] \<and> page (pagination st) > 1
           then page (pagination st) - 1 else page (pagination st))"
proof -
  have "length (displayed_rows toLowerCase st) = 1 \<longleftrightarrow> displayed_rows toLowerCase st = [p]"
    using assms(2) by (cases "displayed_rows toLowerCase st") auto
  then show ?thesis
    using assms(1) by (simp add: handleDeleteConfirm_def Let_def)
qed

theorem handleDeleteConfirm_page_witness:
  "selectedPatient example_records = Some example_ana
   \<and> displayed_rows ascii_lower example_records = [example_ana]
   \<and> page (pagination example_records) = 2
   \<and> handleDeleteConfirm ascii_lower example_records True = Some 1"
  using handleDeleteConfirm_page [of example_records example_ana ascii_lower]
  by (simp add: displayed_rows_def filterPatients_def trim_def example_records_def)

subsection \<open>Dates at the API boundary\<close>

lemma str_split_last: "sep \<notin> set a \<Longrightarrow> str_split sep a = [a]"
  by (induction a) auto

lemma str_split_append:
  "sep \<notin> set a \<Longrightarrow> str_split sep (a @ sep # rest) = a # str_split sep rest"
  by (induction a) auto

lemma is_digit_not_dash: "is_digit c \<Longrightarrow> c \<noteq> CHR ''-''"
  by (auto simp: is_digit_def)

lemma formatDateForAPI_parts:
  assumes "CHR ''-'' \<notin> set y" "CHR ''-'' \<notin> set m" "CHR ''-'' \<notin> set d"
  shows "formatDateForAPI (Some (y @ ''-'' @ m @ ''-'' @ d)) = m @ ''/'' @ d @ ''/'' @ y"
proof -
  have "str_split (CHR ''-'') (y @ ''-'' @ m @ ''-'' @ d) = [y, m, d]"
    using assms by (simp add: str_split_append str_split_last)
  then show ?thesis
    by (simp add: formatDateForAPI_def element_def Let_def)
qed

lemma formatDateForAPI_ui_date:
  assumes "ui_date s"
  shows "formatDateForAPI (Some s) = take 2 (drop 5 s) @ ''/'' @ drop 8 s @ ''/'' @ take 4 s"
    and "api_date (formatDateForAPI (Some s))"
proof -
  from assms obtain y1 y2 y3 y4 m1 m2 d1 d2 where
    s: "s = [y1, y2, y3, y4] @ ''-'' @ [m1, m2] @ ''-'' @ [d1, d2]"
    and digits: "list_all is_digit [y1, y2, y3, y4, m1, m2, d1, d2]"
    by (cases s rule: ui_date.cases) auto
  have "CHR ''-'' \<notin> set [y1, y2, y3, y4]" "CHR ''-'' \<notin> set [m1, m2]"
    "CHR ''-'' \<notin> set [d1, d2]"
    using digits by (auto dest: is_digit_not_dash)
  then have f: "formatDateForAPI (Some s) = [m1, m2] @ ''/'' @ [d1, d2] @ ''/'' @ [y1, y2, y3, y4]"
    unfolding s by (rule formatDateForAPI_parts)
  show "formatDateForAPI (Some s) = take 2 (drop 5 s) @ ''/'' @ drop 8 s @ ''/'' @ take 4 s"
    unfolding f by (simp add: s)
  show "api_date (formatDateForAPI (Some s))"
    unfolding f using digits by simp
qed

text \<open>
  C5, as amended.  \<open>formatDateForAPI\<close> returns the empty string for a null or empty
  input, and for a date \<open>YYYY-MM-DD\<close> the date \<open>MM/DD/YYYY\<close> with the same year, month
  and day; that date is what the new-visit form posts as \<open>visit_date\<close> and the
  edit-patient form as \<open>birthdate\<close>.  The dashboard's date range is passed to the API as
  the date inputs hold it.
\<close>

theorem formatDateForAPI_converts:
  "formatDateForAPI None = [] \<and> formatDateForAPI (Some []) = []
   \<and> (ui_date s \<longrightarrow>
         formatDateForAPI (Some s) = take 2 (drop 5 s) @ ''/'' @ drop 8 s @ ''/'' @ take 4 s
         \<and> api_date (formatDateForAPI (Some s))
         \<and> (visitForm ''visitDate'' = Some s \<longrightarrow>
               map_of (visitData toNumber clientId visitForm now goals) ''visit_date''
                 = Some (JStr (take 2 (drop 5 s) @ ''/'' @ drop 8 s @ ''/'' @ take 4 s)))
         \<and> (editForm ''birthdate'' = Some s \<longrightarrow>
               map_of (editPatientData toNumber clientId editForm selectedGoals) ''birthdate''
                 = Some (JStr (take 2 (drop 5 s) @ ''/'' @ drop 8 s @ ''/'' @ take 4 s))))
   \<and> (a \<noteq> [] \<and> b \<noteq> [] \<longrightarrow>
         getMetrics (Some a) (Some b) = ''/dashboard/metrics?start_date='' @ a @ ''&end_date='' @ b)"
proof (intro conjI impI)
  show "formatDateForAPI None = []" "formatDateForAPI (Some []) = []"
    by (simp_all add: formatDateForAPI_def)
next
  assume u: "ui_date s"
  then show conv: "formatDateForAPI (Some s)
      = take 2 (drop 5 s) @ ''/'' @ drop 8 s @ ''/'' @ take 4 s"
    by (rule formatDateForAPI_ui_date)
  from u show "api_date (formatDateForAPI (Some s))"
    by (rule formatDateForAPI_ui_date)
  {
    assume "visitForm ''visitDate'' = Some s"
    then have "map_of (visitData toNumber clientId visitForm now goals) ''visit_date''
        = Some (JStr (formatDateForAPI (Some s)))"
      by (simp add: visitData_def)
    then show "map_of (visitData toNumber clientId visitForm now goals) ''visit_date''
        = Some (JStr (take 2 (drop 5 s) @ ''/'' @ drop 8 s @ ''/'' @ take 4 s))"
      by (simp only: conv)
  }
  {
    assume "editForm ''birthdate'' = Some s"
    then have "map_of (editPatientData toNumber clientId editForm selectedGoals) ''birthdate''
        = Some (JStr (formatDateForAPI (Some s)))"
      by (simp add: editPatientData_def)
    then show "map_of (editPatientData toNumber clientId editForm selectedGoals) ''birthdate''
        = Some (JStr (take 2 (drop 5 s) @ ''/'' @ drop 8 s @ ''/'' @ take 4 s))"
      by (simp only: conv)
  }
next
  assume "a \<noteq> [] \<and> b \<noteq> []"
  then show "getMetrics (Some a) (Some b)
      = ''/dashboard/metrics?start_date='' @ a @ ''&end_date='' @ b"
    by (simp add: getMetrics_def)
qed

theorem formatDateForAPI_converts_witness:
  "ui_date ''2024-01-10''
   \<and> formatDateForAPI (Some ''2024-01-10'') = ''01/10/2024''
   \<and> api_date (formatDateForAPI (Some ''2024-01-10''))
   \<and> map_of (visitData (\<lambda>_. JNull) ''C7'' (\<lambda>k. Some ''2024-01-10'') ''09:30'' None)
         ''visit_date'' = Some (JStr ''01/10/2024'')
   \<and> map_of (editPatientData (\<lambda>_. JNull) ''C7'' (\<lambda>k. Some ''2024-01-10'') []) ''birthdate''
       = Some (JStr ''01/10/2024'')
   \<and> getMetrics (Some ''2024-01-10'') (Some ''2024-02-10'')
       = ''/dashboard/metrics?start_date=2024-01-10&end_date=2024-02-10''"
  using formatDateForAPI_converts
    [of "''2024-01-10''" "\<lambda>k. Some ''2024-01-10''" "\<lambda>_. JNull" "''C7''" "''09:30''" None
        "\<lambda>k. Some ''2024-01-10''" "[]" "''2024-01-10''" "''2024-02-10''"]
  by (simp add: is_digit_def)

text \<open>
  C5 as stated ends with: every date transmitted to the API is in \<open>MM/DD/YYYY\<close> format.
  The dashboard transmits the dates of its range as \<open>YYYY-MM-DD\<close>.
\<close>

theorem getMetrics_sends_ui_date:
  "ui_date ''2024-01-10''
   \<and> getMetrics (Some ''2024-01-10'') (Some ''2024-02-10'')
       = ''/dashboard/metrics?start_date=2024-01-10&end_date=2024-02-10''
   \<and> \<not> api_date ''2024-01-10'' \<and> \<not> api_date ''2024-02-10''"
  by (simp add: getMetrics_def is_digit_def)

subsection \<open>Goal flags through the edit form\<close>

lemma GM_keys_distinct: "distinct (map fst GOAL_MAPPING)"
  by code_simp

lemma GM_values_distinct: "distinct (map snd GOAL_MAPPING)"
  by code_simp

lemma GM_nonempty: "(k, v) \<in> set GOAL_MAPPING \<Longrightarrow> k \<noteq> [] \<and> v \<noteq> []"
proof -
  have "\<forall>(k, v)\<in>set GOAL_MAPPING. k \<noteq> [] \<and> v \<noteq> []" by code_simp
  then show "(k, v) \<in> set GOAL_MAPPING \<Longrightarrow> k \<noteq> [] \<and> v \<noteq> []" by blast
qed

lemma GM_not_identifying:
  "(k, v) \<in> set GOAL_MAPPING \<Longrightarrow> k \<noteq> ''client_id'' \<and> k \<noteq> ''visit_date'' \<and> k \<noteq> ''visit_id''"
proof -
  have "\<forall>(k, v)\<in>set GOAL_MAPPING.
      k \<noteq> ''client_id'' \<and> k \<noteq> ''visit_date'' \<and> k \<noteq> ''visit_id''"
    by code_simp
  then show "(k, v) \<in> set GOAL_MAPPING \<Longrightarrow>
      k \<noteq> ''client_id'' \<and> k \<noteq> ''visit_date'' \<and> k \<noteq> ''visit_id''"
    by blast
qed

lemma GM_key_unique:
  assumes "(k, v) \<in> set GOAL_MAPPING" "(k', v) \<in> set GOAL_MAPPING"
  shows "k = k'"
proof -
  have "inj_on snd (set GOAL_MAPPING)"
    using GM_values_distinct by (simp add: distinct_map)
  from inj_onD[OF this, of "(k, v)" "(k', v)"] assms show ?thesis by simp
qed

lemma find_by_value:
  "distinct (map snd M) \<Longrightarrow> (k, v) \<in> set M \<Longrightarrow> find (\<lambda>(_, value). value = v) M = Some (k, v)"
proof (induction M)
  case Nil
  then show ?case by simp
next
  case (Cons p M)
  then show ?case by (cases p) (auto simp: image_iff)
qed

lemma select_goal_known:
  assumes "(k, v) \<in> set GOAL_MAPPING"
  shows "select_goal g v = AList.update k (JNum 1) g"
  using find_by_value[OF GM_values_distinct assms] GM_nonempty[OF assms]
  by (simp add: select_goal_def)

lemma select_goal_unknown:
  assumes "v \<notin> snd ` set GOAL_MAPPING"
  shows "select_goal g v = g"
proof -
  have "find (\<lambda>(_, value). value = v) GOAL_MAPPING = None"
    using assms by (force simp: find_None_iff)
  then show ?thesis by (simp add: select_goal_def)
qed

lemma update_fresh: "k \<notin> fst ` set acc \<Longrightarrow> AList.update k v acc = acc @ [(k, v)]"
  by (induction acc) auto

lemma foldl_update_fresh:
  "distinct ks \<Longrightarrow> set ks \<inter> fst ` set acc = {} \<Longrightarrow>
   foldl (\<lambda>g k. AList.update k v g) acc ks = acc @ map (\<lambda>k. (k, v)) ks"
proof (induction ks arbitrary: acc)
  case Nil
  then show ?case by simp
next
  case (Cons k ks)
  then have "AList.update k v acc = acc @ [(k, v)]" by (simp add: update_fresh)
  moreover have "set ks \<inter> fst ` set (acc @ [(k, v)]) = {}" using Cons.prems by auto
  ultimately show ?case using Cons by simp
qed

lemma init_goals_eq: "init_goals = map (\<lambda>k. (k, JNum 0)) (map fst GOAL_MAPPING)"
  unfolding init_goals_def using foldl_update_fresh[OF GM_keys_distinct, of "[]" "JNum 0"]
  by simp

lemma keys_init_goals: "map fst init_goals = map fst GOAL_MAPPING"
  by (simp add: init_goals_eq comp_def)

lemma map_of_constant: "map_of (map (\<lambda>k. (k, v)) ks) k = (if k \<in> set ks then Some v else None)"
  by (induction ks) simp_all

lemma map_of_init_goals:
  "map_of init_goals k = (if k \<in> fst ` set GOAL_MAPPING then Some (JNum 0) else None)"
  unfolding init_goals_eq map_of_constant by simp

lemma map_of_foldl_select_goal:
  "map_of (foldl select_goal acc sel) k =
     (if \<exists>v\<in>set sel. (k, v) \<in> set GOAL_MAPPING then Some (JNum 1) else map_of acc k)"
proof (induction sel arbitrary: acc)
  case Nil
  then show ?case by simp
next
  case (Cons a sel)
  show ?case
  proof (cases "a \<in> snd ` set GOAL_MAPPING")
    case True
    then obtain ka where ka: "(ka, a) \<in> set GOAL_MAPPING" by auto
    have "(k, a) \<in> set GOAL_MAPPING \<longleftrightarrow> k = ka"
      using ka GM_key_unique by blast
    then show ?thesis
      by (simp add: Cons.IH select_goal_known[OF ka] update_conv')
  next
    case False
    then have "(k, a) \<notin> set GOAL_MAPPING" by force
    then show ?thesis
      by (simp add: Cons.IH select_goal_unknown[OF False])
  qed
qed

lemma keys_foldl_select_goal:
  "fst ` set GOAL_MAPPING \<subseteq> fst ` set acc \<Longrightarrow>
   map fst (foldl select_goal acc sel) = map fst acc"
proof (induction sel arbitrary: acc)
  case Nil
  then show ?case by simp
next
  case (Cons a sel)
  have step: "map fst (select_goal acc a) = map fst acc"
  proof (cases "a \<in> snd ` set GOAL_MAPPING")
    case True
    then obtain ka where ka: "(ka, a) \<in> set GOAL_MAPPING" by auto
    then have "ka \<in> fst ` set acc" using Cons.prems by force
    then show ?thesis by (simp add: select_goal_known[OF ka] update_keys)
  next
    case False
    then show ?thesis by (simp add: select_goal_unknown)
  qed
  then have "fst ` set GOAL_MAPPING \<subseteq> fst ` set (select_goal acc a)"
    using Cons.prems by (metis list.set_map)
  then show ?case using Cons.IH step by simp
qed

lemma set_getActiveGoalsFromData:
  assumes keys: "fst ` set g \<subseteq> fst ` set GOAL_MAPPING"
  shows "set (getActiveGoalsFromData (Some g)) =
     {v. \<exists>k. (k, JNum 1) \<in> set g \<and> (k, v) \<in> set GOAL_MAPPING}"
proof -
  have known: "\<exists>v. (k, v) \<in> set GOAL_MAPPING" if "(k, x) \<in> set g" for k x
    using keys that by force
  have name: "(case map_of GOAL_MAPPING k of Some v \<Rightarrow> v | None \<Rightarrow> []) = v"
    if "(k, v) \<in> set GOAL_MAPPING" for k v
    using that GM_keys_distinct by simp
  show ?thesis
  proof (intro set_eqI iffI)
    fix v
    assume "v \<in> set (getActiveGoalsFromData (Some g))"
    then obtain k x where kx: "(k, x) \<in> set g" "x = JNum 1"
      and v: "v = (case map_of GOAL_MAPPING k of Some v \<Rightarrow> v | None \<Rightarrow> [])"
      by (auto simp: getActiveGoalsFromData_def split: if_splits)
    from known[OF kx(1)] obtain w where w: "(k, w) \<in> set GOAL_MAPPING" by blast
    then have "v = w" using v name by simp
    then show "v \<in> {v. \<exists>k. (k, JNum 1) \<in> set g \<and> (k, v) \<in> set GOAL_MAPPING}"
      using kx w by blast
  next
    fix v
    assume "v \<in> {v. \<exists>k. (k, JNum 1) \<in> set g \<and> (k, v) \<in> set GOAL_MAPPING}"
    then obtain k where k: "(k, JNum 1) \<in> set g" "(k, v) \<in> set GOAL_MAPPING" by blast
    have "v \<noteq> []" using GM_nonempty[OF k(2)] by simp
    moreover have "k \<noteq> ''client_id'' \<and> k \<noteq> ''visit_date'' \<and> k \<noteq> ''visit_id''"
      using GM_not_identifying[OF k(2)] .
    ultimately show "v \<in> set (getActiveGoalsFromData (Some g))"
      using k(1) name[OF k(2)]
      by (force simp: getActiveGoalsFromData_def image_iff)
  qed
qed

text \<open>
  C3. A goals record that assigns 0 or 1 to exactly the thirteen goal keys comes back from
  the edit form unchanged: decoding it with \<open>getActiveGoalsFromData\<close> and encoding the
  selection in \<open>handleSubmit\<close> gives a record with the same value at every key, and the
  same list of entries when the keys come in the order of \<open>GOAL_MAPPING\<close>.
\<close>

theorem goal_flags_round_trip:
  assumes dist: "distinct (map fst g)"
    and keys: "set (map fst g) = set (map fst GOAL_MAPPING)"
    and flags: "\<forall>(k, v)\<in>set g. v = JNum 0 \<or> v = JNum 1"
  shows "map_of (submitted_goals (getActiveGoalsFromData (Some g))) = map_of g
    \<and> (map fst g = map fst GOAL_MAPPING \<longrightarrow>
         submitted_goals (getActiveGoalsFromData (Some g)) = g)"
proof -
  let ?r = "submitted_goals (getActiveGoalsFromData (Some g))"
  have keys': "fst ` set g = fst ` set GOAL_MAPPING" using keys by simp
  have active: "set (getActiveGoalsFromData (Some g)) =
     {v. \<exists>k. (k, JNum 1) \<in> set g \<and> (k, v) \<in> set GOAL_MAPPING}"
    by (rule set_getActiveGoalsFromData) (simp add: keys')
  have maps: "map_of ?r k = map_of g k" for k
  proof (cases "k \<in> fst ` set GOAL_MAPPING")
    case False
    then have "map_of g k = None" using keys' by (simp add: map_of_eq_None_iff)
    moreover have "map_of ?r k = None"
      using False unfolding submitted_goals_def map_of_foldl_select_goal map_of_init_goals
      by force
    ultimately show ?thesis by simp
  next
    case True
    then obtain w where w: "(k, w) \<in> set GOAL_MAPPING" by auto
    from True keys' obtain x where x: "(k, x) \<in> set g" by force
    then have gx: "map_of g k = Some x" using dist by simp
    have sel: "(\<exists>v\<in>set (getActiveGoalsFromData (Some g)). (k, v) \<in> set GOAL_MAPPING)
        \<longleftrightarrow> (k, JNum 1) \<in> set g"
      unfolding active using w GM_key_unique by blast
    have one: "(k, JNum 1) \<in> set g \<longleftrightarrow> x = JNum 1"
      using x dist gx by (metis map_of_eq_Some_iff option.inject)
    have "x = JNum 0 \<or> x = JNum 1" using flags x by auto
    then show ?thesis
      unfolding submitted_goals_def map_of_foldl_select_goal map_of_init_goals sel one gx
      using True by auto
  qed
  then have eq: "map_of ?r = map_of g" by (rule ext)
  have rkeys: "map fst ?r = map fst GOAL_MAPPING"
    unfolding submitted_goals_def
    by (subst keys_foldl_select_goal) (simp_all add: keys_init_goals flip: set_map)
  have "?r = g" if same: "map fst g = map fst GOAL_MAPPING"
  proof -
    have len: "length ?r = length g"
      using rkeys same by (metis length_map)
    have "map_of (zip (map fst g) (map snd ?r)) = map_of (zip (map fst g) (map snd g))"
      using eq rkeys same by (metis zip_map_fst_snd)
    moreover have "length (map snd ?r) = length (map fst g)" using len by simp
    moreover have "length (map snd g) = length (map fst g)" by simp
    ultimately have "map snd ?r = map snd g"
      using dist by (metis map_of_zip_inject)
    then show ?thesis using rkeys same by (metis zip_map_fst_snd)
  qed
  with eq show ?thesis by blast
qed

theorem goal_flags_round_trip_witness:
  "distinct (map fst example_goals)
   \<and> set (map fst example_goals) = set (map fst GOAL_MAPPING)
   \<and> list_all (\<lambda>(k, v). v = JNum 0 \<or> v = JNum 1) example_goals
   \<and> submitted_goals (getActiveGoalsFromData (Some example_goals)) = example_goals"
proof -
  have h1: "distinct (map fst example_goals)" by code_simp
  have h2: "set (map fst example_goals) = set (map fst GOAL_MAPPING)" by code_simp
  have h3: "\<forall>(k, v)\<in>set example_goals. v = JNum 0 \<or> v = JNum 1" by code_simp
  have h4: "map fst example_goals = map fst GOAL_MAPPING" by code_simp
  have h5: "list_all (\<lambda>(k, v). v = JNum 0 \<or> v = JNum 1) example_goals" by code_simp
  show ?thesis using goal_flags_round_trip [OF h1 h2 h3] h1 h2 h4 h5 by blast
qed

subsection \<open>Visit creation\<close>

lemma visitData_blank_is_null:
  assumes "list_all (\<lambda>k. formData k = Some []) measurement_fields"
  shows "list_all (\<lambda>k. map_of (visitData toNumber clientId formData now goals) k = Some JNull)
     measurement_fields"
  using assms by (simp add: visitData_def measurement_fields_def number_or_null_def)

text \<open>
  C8. Every visit-creation path should transmit a measurement left blank as null.  The
  new-visit form does (\<open>visitData_blank_is_null\<close>); \<open>addPatientVisit\<close> of the profile
  page, with every input blank, transmits the number 0 for each of the seven measurements.
\<close>

theorem addPatientVisit_blank_sends_zero:
  "list_all (\<lambda>k. map_of (addPatientVisit_formData (\<lambda>_. [])) k = Some (JNum 0))
     measurement_fields"
  by (simp add: addPatientVisit_formData_def measurement_fields_def value_or_def or_else_def)

subsection \<open>Recent changes\<close>

lemma compute_latest_changes_total: "\<exists>r. compute_latest_changes visits = Inr r"
  by (auto simp: compute_latest_changes_def percent_change_def checked_div_def Let_def
      split: option.splits)

text \<open>
  C2. The change computation never ends in an error, so never in a division by zero, and
  for a history of fewer than two visits its result is the no-data value: \<open>latest_changes\<close>
  is null, for which the patient-detail view renders no card.
\<close>

theorem fewer_than_two_visits_no_data:
  "(\<exists>r. compute_latest_changes visits = Inr r)
   \<and> (length visits < 2 \<longrightarrow>
         compute_latest_changes visits = Inr None \<and> recent_changes None = None)"
  using compute_latest_changes_total [of visits]
  by (simp add: compute_latest_changes_def recent_changes_def)

theorem fewer_than_two_visits_no_data_witness:
  "length [\<lparr>visit_date = ''2024-01-10'', systolic = Some 120, diastolic = Some 80,
       cholesterol = None, glucose = None, weight = Some 200, bmi = None, a1c = None\<rparr>] < 2
   \<and> compute_latest_changes
       [\<lparr>visit_date = ''2024-01-10'', systolic = Some 120, diastolic = Some 80,
         cholesterol = None, glucose = None, weight = Some 200, bmi = None, a1c = None\<rparr>]
     = Inr None
   \<and> recent_changes None = None"
  using fewer_than_two_visits_no_data
    [of "[\<lparr>visit_date = ''2024-01-10'', systolic = Some 120, diastolic = Some 80,
       cholesterol = None, glucose = None, weight = Some 200, bmi = None, a1c = None\<rparr>]"]
  by simp

lemma string_of_int_nonempty: "string_of_int i \<noteq> []"
  by (simp add: string_of_int_def string_of_nat_nonempty)

lemma signed_text_nonempty: "signed_text d \<noteq> []"
  by (simp add: signed_text_def string_of_int_nonempty)

lemma compute_latest_changes_latest_two:
  "compute_latest_changes (pre @ [a, b]) =
     (case percent_change (weight a) (weight b) of
        Inl e \<Rightarrow> Inl e
      | Inr pct \<Rightarrow>
          Inr (Some \<lparr>systolic_change = delta (systolic a) (systolic b),
                     diastolic_change = delta (diastolic a) (diastolic b),
                     cholesterol_change = delta (cholesterol a) (cholesterol b),
                     glucose_change = delta (glucose a) (glucose b),
                     weight_change = delta (weight a) (weight b),
                     bmi_change = delta (bmi a) (bmi b),
                     a1c_change = delta (a1c a) (a1c b),
                     weight_percentage_change = pct\<rparr>))"
  by (simp add: compute_latest_changes_def Let_def nth_append)

lemma weight_row_in_card:
  assumes "weight_change c = Some w" "w \<noteq> []" "weight_percentage_change c = Some p" "p \<noteq> []"
  shows "\<exists>rows. recent_changes (Some c) = Some rows
     \<and> (''Weight'', w @ '' lbs'', Some (''('' @ p @ '')'')) \<in> set rows"
  using assms by (simp add: recent_changes_def change_row_def)

lemma weight_change_general:
  assumes "weight a = Some x" "weight b = Some y" "x \<noteq> 0"
  shows "\<exists>c rows. compute_latest_changes (pre @ [a, b]) = Inr (Some c)
     \<and> weight_change c = Some (signed_text (y - x))
     \<and> weight_percentage_change c
         = Some (one_decimal (of_int (y - x) * 100 / of_int x) @ ''%'')
     \<and> recent_changes (Some c) = Some rows
     \<and> (''Weight'', signed_text (y - x) @ '' lbs'',
          Some (''('' @ one_decimal (of_int (y - x) * 100 / of_int x) @ ''%'' @ '')''))
         \<in> set rows"
proof -
  let ?p = "one_decimal (of_int (y - x) * 100 / of_int x) @ ''%''"
  let ?c = "\<lparr>systolic_change = delta (systolic a) (systolic b),
             diastolic_change = delta (diastolic a) (diastolic b),
             cholesterol_change = delta (cholesterol a) (cholesterol b),
             glucose_change = delta (glucose a) (glucose b),
             weight_change = delta (weight a) (weight b),
             bmi_change = delta (bmi a) (bmi b),
             a1c_change = delta (a1c a) (a1c b),
             weight_percentage_change = Some ?p\<rparr>"
  have pct: "percent_change (weight a) (weight b) = Inr (Some ?p)"
    using assms by (simp add: percent_change_def checked_div_def)
  have c: "compute_latest_changes (pre @ [a, b]) = Inr (Some ?c)"
    by (simp add: compute_latest_changes_latest_two pct)
  have w: "weight_change ?c = Some (signed_text (y - x))"
    using assms by (simp add: delta_def)
  have p: "weight_percentage_change ?c = Some ?p" by simp
  from weight_row_in_card[OF w signed_text_nonempty p] obtain rows where
    "recent_changes (Some ?c) = Some rows"
    "(''Weight'', signed_text (y - x) @ '' lbs'', Some (''('' @ ?p @ '')'')) \<in> set rows"
    by auto
  with c w p show ?thesis by (intro exI[of _ ?c] exI[of _ rows]) simp
qed

text \<open>
  C4. Whatever the history before them, when the two most recent visits carry the weights
  200 and 190 the computation gives the weight change \<open>-10\<close> and the weight percentage
  change \<open>-5.0%\<close>, and the card shows \<open>-10 lbs\<close> with \<open>(-5.0%)\<close> after it.  In general,
  for the weights \<open>x\<close>, not zero, and then \<open>y\<close>, it gives the signed delta \<open>y - x\<close> and
  the percent change of \<open>x\<close> to one decimal, and the card shows the delta in pounds with
  the percentage in parentheses.
\<close>

theorem weight_change_of_latest_two:
  "(weight a = Some 200 \<and> weight b = Some 190 \<longrightarrow>
      (\<exists>c rows. compute_latest_changes (pre @ [a, b]) = Inr (Some c)
         \<and> weight_change c = Some ''-10''
         \<and> weight_percentage_change c = Some ''-5.0%''
         \<and> recent_changes (Some c) = Some rows
         \<and> (''Weight'', ''-10 lbs'', Some ''(-5.0%)'') \<in> set rows))
   \<and> (weight a = Some x \<and> weight b = Some y \<and> x \<noteq> 0 \<longrightarrow>
      (\<exists>c rows. compute_latest_changes (pre @ [a, b]) = Inr (Some c)
         \<and> weight_change c = Some (signed_text (y - x))
         \<and> weight_percentage_change c
             = Some (one_decimal (of_int (y - x) * 100 / of_int x) @ ''%'')
         \<and> recent_changes (Some c) = Some rows
         \<and> (''Weight'', signed_text (y - x) @ '' lbs'',
              Some (''('' @ one_decimal (of_int (y - x) * 100 / of_int x) @ ''%'' @ '')''))
             \<in> set rows))"
proof (intro conjI impI)
  assume "weight a = Some x \<and> weight b = Some y \<and> x \<noteq> 0"
  then show "\<exists>c rows. compute_latest_changes (pre @ [a, b]) = Inr (Some c)
         \<and> weight_change c = Some (signed_text (y - x))
         \<and> weight_percentage_change c
             = Some (one_decimal (of_int (y - x) * 100 / of_int x) @ ''%'')
         \<and> recent_changes (Some c) = Some rows
         \<and> (''Weight'', signed_text (y - x) @ '' lbs'',
              Some (''('' @ one_decimal (of_int (y - x) * 100 / of_int x) @ ''%'' @ '')''))
             \<in> set rows"
    by (intro weight_change_general) simp_all
next
  assume e: "weight a = Some 200 \<and> weight b = Some 190"
  have d: "signed_text (190 - 200) = ''-10''" by code_simp
  have p: "one_decimal (of_int (190 - 200) * 100 / of_int 200) = ''-5.0''" by code_simp
  from e have "weight a = Some 200" "weight b = Some 190" "(200::int) \<noteq> 0" by simp_all
  from weight_change_general[OF this, of pre]
  show "\<exists>c rows. compute_latest_changes (pre @ [a, b]) = Inr (Some c)
         \<and> weight_change c = Some ''-10''
         \<and> weight_percentage_change c = Some ''-5.0%''
         \<and> recent_changes (Some c) = Some rows
         \<and> (''Weight'', ''-10 lbs'', Some ''(-5.0%)'') \<in> set rows"
    unfolding d p by simp
qed

theorem weight_change_of_latest_two_witness:
  "weight visit_jan = Some 200 \<and> weight visit_feb = Some 190
   \<and> (\<exists>c rows. compute_latest_changes ([visit_older] @ [visit_jan, visit_feb]) = Inr (Some c)
         \<and> weight_change c = Some ''-10''
         \<and> weight_percentage_change c = Some ''-5.0%''
         \<and> recent_changes (Some c) = Some rows
         \<and> (''Weight'', ''-10 lbs'', Some ''(-5.0%)'') \<in> set rows)"
  using weight_change_of_latest_two [of visit_jan visit_feb "[visit_older]" 200 190]
  by (simp add: visit_jan_def visit_feb_def)

end
